theory Spec2Isabelle
  imports Complex_Main
begin

section \<open>Python values, exceptions and the module's names\<close>

text \<open>
  The exceptions that can travel through \<^verbatim>\<open>main.py\<close>. The first four are
  \<^verbatim>\<open>requests.exceptions.RequestException\<close> and subclasses of it
  (\<open>InvalidJSONError\<close> stands for the \<^verbatim>\<open>requests.exceptions.JSONDecodeError\<close> that
  recent versions of the library raise from \<^verbatim>\<open>Response.json()\<close>; it inherits from
  the standard library's \<^verbatim>\<open>json.JSONDecodeError\<close> too). \<open>HTTPError\<close> carries the
  status code, \<open>KeyError\<close> the missing label, \<open>NameError\<close> the unbound name.
\<close>

datatype exn =
    ConnectionError
  | Timeout
  | HTTPError nat
  | InvalidJSONError
  | JSONDecodeError
  | ValueError
  | KeyError string
  | IndexError
  | AttributeError string
  | NameError string
  | TypeError
  | ImportError

fun isinstance_RequestException :: "exn \<Rightarrow> bool" where
  "isinstance_RequestException ConnectionError = True"
| "isinstance_RequestException Timeout = True"
| "isinstance_RequestException (HTTPError c) = True"
| "isinstance_RequestException InvalidJSONError = True"
| "isinstance_RequestException e = False"

fun isinstance_JSONDecodeError :: "exn \<Rightarrow> bool" where
  "isinstance_JSONDecodeError JSONDecodeError = True"
| "isinstance_JSONDecodeError InvalidJSONError = True"
| "isinstance_JSONDecodeError e = False"

text \<open>
  The names bound in the module's global namespace: those of the \<^verbatim>\<open>import\<close>
  statements of lines 1 to 17 and of the \<^verbatim>\<open>def\<close> statements. A global name that
  is read and is neither in this list nor a builtin raises \<open>NameError\<close>.
\<close>

definition module_globals :: "string list" where
  "module_globals =
     [''st'', ''yf'', ''pd'', ''datetime'', ''requests'', ''random'', ''FreeProxy'',
      ''go'', ''make_subplots'', ''pc'',
      ''get_proxy_dict'', ''fetch_info'', ''fetch_history'', ''fetch_balance'',
      ''fetch_income'', ''fetch_cash'', ''fetch_splits'', ''fetch_table'',
      ''format_value'', ''remove_duplicates'', ''top_table'', ''info_table'',
      ''plot_gauge'', ''plot_candles_stick_bar'', ''plot_candles_stick'',
      ''plot_line_multiple'', ''plot_balance'', ''plot_assets'', ''plot_liabilities'',
      ''plot_equity'', ''plot_income'',
      ''get_nifty_200_tickers'', ''get_top_gainers_losers'', ''display_indices'',
      ''display_top_movers'', ''display_nifty_200_overview'',
      ''display_selected_stock'', ''main'']"

definition global_bound :: "string \<Rightarrow> bool" where
  "global_bound name = (name \<in> set module_globals)"

text \<open>JSON values as \<^verbatim>\<open>Response.json()\<close> delivers them; numbers are exact.\<close>

datatype json =
    JNull
  | JBool bool
  | JNum rat
  | JStr string
  | JArr "json list"
  | JObj "(string \<times> json) list"

text \<open>
  A parsed JSON object is a Python \<^verbatim>\<open>dict\<close>: of a repeated key the last value
  counts, and the keys keep the order of their first occurrence.
\<close>

definition dict_lookup :: "(string \<times> json) list \<Rightarrow> string \<Rightarrow> json option" where
  "dict_lookup kvs k = map_of (rev kvs) k"

definition dict_keys :: "(string \<times> json) list \<Rightarrow> string list" where
  "dict_keys kvs = rev (remdups (rev (map fst kvs)))"

definition dict_get :: "(string \<times> json) list \<Rightarrow> string \<Rightarrow> json \<Rightarrow> json" where
  "dict_get kvs k d = (case dict_lookup kvs k of None \<Rightarrow> d | Some v \<Rightarrow> v)"

section \<open>Data frames\<close>

text \<open>
  A \<^verbatim>\<open>pandas.DataFrame\<close> with string column labels, column by column:
  the length of its row index and the labelled columns. \<^verbatim>\<open>df.empty\<close> holds when
  either axis has length 0, \<^verbatim>\<open>len(df)\<close> is the number of rows.
\<close>

record 'c DataFrame =
  index_len :: nat
  columns_data :: "(string \<times> 'c list) list"

definition DataFrame0 :: "'c DataFrame" where
  "DataFrame0 = \<lparr>index_len = 0, columns_data = []\<rparr>"

definition df_empty :: "'c DataFrame \<Rightarrow> bool" where
  "df_empty df = (index_len df = 0 \<or> columns_data df = [])"

definition df_len :: "'c DataFrame \<Rightarrow> nat" where
  "df_len df = index_len df"

definition df_columns :: "'c DataFrame \<Rightarrow> string list" where
  "df_columns df = map fst (columns_data df)"

text \<open>\<^verbatim>\<open>df[label].tolist()\<close>: the values of one column, \<open>KeyError\<close> without it.\<close>

definition df_column :: "'c DataFrame \<Rightarrow> string \<Rightarrow> exn + 'c list" where
  "df_column df label =
     (case map_of (columns_data df) label of
        None \<Rightarrow> Inl (KeyError label)
      | Some vs \<Rightarrow> Inr vs)"

section \<open>The world outside: HTTP responses, Streamlit calls\<close>

text \<open>
  A \<^verbatim>\<open>requests.Response\<close>: its status code, what \<^verbatim>\<open>.json()\<close> makes of its
  body (the value, or the exception raised), and what \<^verbatim>\<open>pd.read_html\<close> makes of
  its text (the list of tables, or the exception raised).
\<close>

record response =
  status_code :: nat
  json_body :: "exn + json"
  html_tables :: "exn + string DataFrame list"

text \<open>\<^verbatim>\<open>raise_for_status()\<close> raises \<open>HTTPError\<close> for the codes 400 to 599 only.\<close>

definition raise_for_status :: "response \<Rightarrow> exn option" where
  "raise_for_status r =
     (if 400 \<le> status_code r \<and> status_code r < 600
      then Some (HTTPError (status_code r)) else None)"

text \<open>
  The rows of the index table that \<^verbatim>\<open>display_indices\<close> shows. A float is a
  rational, a NaN or an infinity; rounding is not modelled.
\<close>

datatype fnum = Fin rat | PInf | NInf | NaN

record snapshot =
  Index :: string
  Last_Traded_Price :: fnum
  Change :: fnum
  Change_pct :: fnum

text \<open>
  The Streamlit calls of the module, in the order they are made. An f-string is the
  list of its literal parts and interpolated values.
\<close>

datatype fpart = Lit string | Fmt_exn exn | Fmt_nat nat

datatype st_call =
    St_error "fpart list"
  | St_warning string
  | St_subheader string
  | St_dataframe "json option DataFrame"
  | St_dataframe_indices "snapshot list"

record world =
  requests :: nat
  slept :: nat
  ui :: "st_call list"

definition st_error :: "fpart list \<Rightarrow> world \<Rightarrow> world" where
  "st_error msg s = s\<lparr>ui := ui s @ [St_error msg]\<rparr>"

definition st_warning :: "string \<Rightarrow> world \<Rightarrow> world" where
  "st_warning msg s = s\<lparr>ui := ui s @ [St_warning msg]\<rparr>"

definition st_dataframe :: "json option DataFrame \<Rightarrow> world \<Rightarrow> world" where
  "st_dataframe df s = s\<lparr>ui := ui s @ [St_dataframe df]\<rparr>"

definition st_dataframe_indices :: "snapshot list \<Rightarrow> world \<Rightarrow> world" where
  "st_dataframe_indices df s = s\<lparr>ui := ui s @ [St_dataframe_indices df]\<rparr>"

definition st_subheader :: "string \<Rightarrow> world \<Rightarrow> world" where
  "st_subheader msg s = s\<lparr>ui := ui s @ [St_subheader msg]\<rparr>"

text \<open>
  \<^verbatim>\<open>requests.get(url, headers=headers, timeout=10)\<close>: one more HTTP request has
  been issued, and the world's answer is a response or an exception.
\<close>

definition requests_get :: "(exn + response) \<Rightarrow> world \<Rightarrow> (exn + response) \<times> world" where
  "requests_get answer s = (answer, s\<lparr>requests := Suc (requests s)\<rparr>)"

text \<open>
  \<^verbatim>\<open>time.sleep(secs)\<close>: the name \<^verbatim>\<open>time\<close> is looked up among the module's
  globals first.
\<close>

definition time_sleep :: "nat \<Rightarrow> world \<Rightarrow> (exn + unit) \<times> world" where
  "time_sleep secs s =
     (if global_bound ''time'' then (Inr (), s\<lparr>slept := slept s + secs\<rparr>)
      else (Inl (NameError ''time''), s))"

section \<open>\<^verbatim>\<open>get_nifty_200_tickers\<close>\<close>

text \<open>
  The body of the \<^verbatim>\<open>try\<close> of lines 43 to 50 at one attempt: every path through
  it returns (\<open>Inr\<close>) or raises (\<open>Inl\<close>).
\<close>

definition attempt_body :: "nat \<Rightarrow> (exn + response) \<Rightarrow> world \<Rightarrow> (exn + string list) \<times> world" where
  "attempt_body attempt answer s =
     (case requests_get answer s of
        (Inl e, s1) \<Rightarrow> (Inl e, s1)
      | (Inr response, s1) \<Rightarrow>
          (case raise_for_status response of
             Some e \<Rightarrow> (Inl e, s1)
           | None \<Rightarrow>
               (case html_tables response of
                  Inl e \<Rightarrow> (Inl e, s1)
                | Inr df \<Rightarrow>
                    (if df \<noteq> [] then
                       (case df_column (hd df) ''Symbol'' of
                          Inl e \<Rightarrow> (Inl e, s1)
                        | Inr symbols \<Rightarrow> (Inr symbols, s1))
                     else
                       (Inr [],
                        st_error [Lit ''Failed to retrieve NIFTY 200 data: No table found. Attempt '',
                                  Fmt_nat (attempt + 1)] s1)))))"

text \<open>
  The \<^verbatim>\<open>for attempt in range(3)\<close> loop over the attempts still to make, with the
  handler of lines 51 to 55; \<open>env attempt\<close> is the world's answer to the request of
  that attempt. Line 56 is the empty list of attempts.
\<close>

fun attempts_loop :: "nat list \<Rightarrow> (nat \<Rightarrow> exn + response) \<Rightarrow> world \<Rightarrow> (exn + string list) \<times> world" where
  "attempts_loop [] env s = (Inr [], s)"
| "attempts_loop (attempt # rest) env s =
     (case attempt_body attempt (env attempt) s of
        (Inr v, s1) \<Rightarrow> (Inr v, s1)
      | (Inl e, s1) \<Rightarrow>
          (if isinstance_RequestException e then
             (let s2 = st_error [Lit ''Error fetching NIFTY 200 data: '', Fmt_exn e,
                                 Lit ''. Attempt '', Fmt_nat (attempt + 1)] s1
              in if attempt < 2 then
                   (case time_sleep 5 s2 of
                      (Inl e', s3) \<Rightarrow> (Inl e', s3)
                    | (Inr u, s3) \<Rightarrow> attempts_loop rest env s3)
                 else attempts_loop rest env s2)
           else (Inl e, s1)))"

definition get_nifty_200_tickers :: "(nat \<Rightarrow> exn + response) \<Rightarrow> world \<Rightarrow> (exn + string list) \<times> world" where
  "get_nifty_200_tickers env s = attempts_loop [0, 1, 2] env s"

section \<open>\<^verbatim>\<open>get_top_gainers_losers\<close>\<close>

definition gainer_url :: string where
  "gainer_url = ''https://www.nseindia.com/live_market/dynaContent/live_analysis/nifty_top_gainers.json''"

definition loser_url :: string where
  "loser_url = ''https://www.nseindia.com/live_market/dynaContent/live_analysis/nifty_top_losers.json''"

text \<open>
  \<^verbatim>\<open>response.json().get('data', [])\<close>: only a JSON object, a \<^verbatim>\<open>dict\<close>, has the
  method \<^verbatim>\<open>get\<close>.
\<close>

definition json_get_data :: "response \<Rightarrow> exn + json" where
  "json_get_data r =
     (case json_body r of
        Inl e \<Rightarrow> Inl e
      | Inr (JObj kvs) \<Rightarrow> Inr (dict_get kvs ''data'' (JArr []))
      | Inr other \<Rightarrow> Inl (AttributeError ''get''))"

text \<open>
  The body of the \<^verbatim>\<open>try\<close> of lines 64 to 90. \<open>DF\<close> is the constructor
  \<^verbatim>\<open>pd.DataFrame\<close>, \<open>env url\<close> the world's answer to the request of \<open>url\<close>.
\<close>

definition movers_body ::
  "(json \<Rightarrow> exn + 'c DataFrame) \<Rightarrow> (string \<Rightarrow> exn + response) \<Rightarrow> world
     \<Rightarrow> (exn + 'c DataFrame \<times> 'c DataFrame) \<times> world" where
  "movers_body DF env s =
     (case requests_get (env gainer_url) s of
        (Inl e, s1) \<Rightarrow> (Inl e, s1)
      | (Inr gainers_response, s1) \<Rightarrow>
     (case requests_get (env loser_url) s1 of
        (Inl e, s2) \<Rightarrow> (Inl e, s2)
      | (Inr losers_response, s2) \<Rightarrow>
     (case raise_for_status gainers_response of
        Some e \<Rightarrow> (Inl e, s2)
      | None \<Rightarrow>
     (case raise_for_status losers_response of
        Some e \<Rightarrow> (Inl e, s2)
      | None \<Rightarrow>
     (case json_get_data gainers_response of
        Inl e \<Rightarrow> (Inl e, s2)
      | Inr gainers_data \<Rightarrow>
     (case json_get_data losers_response of
        Inl e \<Rightarrow> (Inl e, s2)
      | Inr losers_data \<Rightarrow>
     (case DF gainers_data of
        Inl e \<Rightarrow> (Inl e, s2)
      | Inr gainers_df \<Rightarrow>
     (case DF losers_data of
        Inl e \<Rightarrow> (Inl e, s2)
      | Inr losers_df \<Rightarrow>
          (if df_empty gainers_df \<or> df_len gainers_df = 0 then
             (Inr (DataFrame0, DataFrame0), st_warning ''No top gainers data available.'' s2)
           else if df_empty losers_df \<or> df_len losers_df = 0 then
             (Inr (DataFrame0, DataFrame0), st_warning ''No top losers data available.'' s2)
           else (Inr (gainers_df, losers_df), s2))))))))))"

text \<open>
  The two \<^verbatim>\<open>except\<close> clauses of lines 92 to 97, tried in order. The second names
  \<^verbatim>\<open>json.JSONDecodeError\<close>: the expression is evaluated when an exception has
  passed the first clause, and reads the global name \<^verbatim>\<open>json\<close>.
\<close>

definition get_top_gainers_losers ::
  "(json \<Rightarrow> exn + 'c DataFrame) \<Rightarrow> (string \<Rightarrow> exn + response) \<Rightarrow> world
     \<Rightarrow> (exn + 'c DataFrame \<times> 'c DataFrame) \<times> world" where
  "get_top_gainers_losers DF env s =
     (case movers_body DF env s of
        (Inr v, s1) \<Rightarrow> (Inr v, s1)
      | (Inl e, s1) \<Rightarrow>
          (if isinstance_RequestException e then
             (Inr (DataFrame0, DataFrame0),
              st_error [Lit ''Error fetching top gainers/losers: '', Fmt_exn e] s1)
           else if global_bound ''json'' then
             (if isinstance_JSONDecodeError e then
                (Inr (DataFrame0, DataFrame0),
                 st_error [Lit ''Error decoding JSON: '', Fmt_exn e] s1)
              else (Inl e, s1))
           else (Inl (NameError ''json''), s1)))"

subsection \<open>The constructor on lists of records\<close>

text \<open>
  \<^verbatim>\<open>pd.DataFrame(data)\<close> for the payloads the feeds are documented to carry:
  \<^verbatim>\<open>None\<close> and a list of records (JSON objects). The columns are the keys in the
  order of their first appearance, and a record without a key has the missing value
  (\<open>None\<close> here) in that column. On every other shape this definition answers with an
  exception, which is what pandas does for a scalar; pandas has a frame for some of
  the other shapes. The theorems about every run therefore take the constructor as
  the parameter \<open>DF\<close>, and this definition only runs the model on record payloads.
\<close>

fun the_records :: "json list \<Rightarrow> (string \<times> json) list list option" where
  "the_records [] = Some []"
| "the_records (JObj kvs # xs) = map_option ((#) kvs) (the_records xs)"
| "the_records (x # xs) = None"

definition records_frame :: "(string \<times> json) list list \<Rightarrow> json option DataFrame" where
  "records_frame recs =
     \<lparr>index_len = length recs,
      columns_data =
        map (\<lambda>k. (k, map (\<lambda>r. dict_lookup r k) recs))
          (rev (remdups (rev (concat (map dict_keys recs)))))\<rparr>"

definition DataFrame_records :: "json \<Rightarrow> exn + json option DataFrame" where
  "DataFrame_records d =
     (case d of
        JNull \<Rightarrow> Inr DataFrame0
      | JArr xs \<Rightarrow>
          (case the_records xs of
             Some recs \<Rightarrow> Inr (records_frame recs)
           | None \<Rightarrow> Inl TypeError)
      | other \<Rightarrow> Inl ValueError)"

section \<open>\<^verbatim>\<open>display_top_movers\<close>\<close>

text \<open>\<^verbatim>\<open>df[[l1, ..., ln]]\<close>: the listed columns in the listed order.\<close>

fun select_columns :: "(string \<times> 'c list) list \<Rightarrow> string list \<Rightarrow> exn + (string \<times> 'c list) list" where
  "select_columns cd [] = Inr []"
| "select_columns cd (l # ls) =
     (case map_of cd l of
        None \<Rightarrow> Inl (KeyError l)
      | Some vs \<Rightarrow>
          (case select_columns cd ls of
             Inl e \<Rightarrow> Inl e
           | Inr rest \<Rightarrow> Inr ((l, vs) # rest)))"

definition df_select :: "'c DataFrame \<Rightarrow> string list \<Rightarrow> exn + 'c DataFrame" where
  "df_select df labels =
     (case select_columns (columns_data df) labels of
        Inl e \<Rightarrow> Inl e
      | Inr cd \<Rightarrow> Inr \<lparr>index_len = index_len df, columns_data = cd\<rparr>)"

text \<open>\<^verbatim>\<open>df.columns = names\<close>: as many names as there are columns.\<close>

definition df_set_columns :: "'c DataFrame \<Rightarrow> string list \<Rightarrow> exn + 'c DataFrame" where
  "df_set_columns df names =
     (if length names = length (columns_data df)
      then Inr \<lparr>index_len = index_len df,
                columns_data = zip names (map snd (columns_data df))\<rparr>
      else Inl ValueError)"

text \<open>
  Lines 134 to 142 for the gainers and lines 144 to 152 for the losers are the same
  block but for the heading; \<open>show_movers\<close> is that block.
\<close>

definition show_movers :: "string \<Rightarrow> json option DataFrame \<Rightarrow> world \<Rightarrow> (exn + unit) \<times> world" where
  "show_movers heading df s =
     (if \<not> df_empty df then
        (let s1 = st_subheader heading s in
         case df_select df [''symbol'', ''ltp'', ''change'', ''pChange''] of
           Inl e \<Rightarrow> (Inl e, s1)
         | Inr sel \<Rightarrow>
             (case df_set_columns sel [''Symbol'', ''Last Traded Price'', ''Change'', ''Change %''] of
                Inl e \<Rightarrow> (Inl e, s1)
              | Inr renamed \<Rightarrow> (Inr (), st_dataframe renamed s1)))
      else (Inr (), s))"

definition display_top_movers ::
  "(json \<Rightarrow> exn + json option DataFrame) \<Rightarrow> (string \<Rightarrow> exn + response) \<Rightarrow> world
     \<Rightarrow> (exn + unit) \<times> world" where
  "display_top_movers DF env s =
     (case get_top_gainers_losers DF env s of
        (Inl e, s1) \<Rightarrow> (Inl e, s1)
      | (Inr (gainers_df, losers_df), s1) \<Rightarrow>
          (case show_movers ''Top 5 Gainers'' gainers_df s1 of
             (Inl e, s2) \<Rightarrow> (Inl e, s2)
           | (Inr u, s2) \<Rightarrow> show_movers ''Top 5 Losers'' losers_df s2))"

section \<open>\<^verbatim>\<open>display_indices\<close>\<close>

text \<open>
  The frame that \<^verbatim>\<open>yf.download\<close> returns for a list of tickers: its columns are
  labelled by a field (\<^verbatim>\<open>Close\<close>, \<^verbatim>\<open>Open\<close>, ...) and a ticker, its rows are the
  trading days in the order of the download, oldest first.
\<close>

record price_frame =
  pcolumns :: "(string \<times> string) list"
  prows :: "fnum list list"

definition pf_empty :: "price_frame \<Rightarrow> bool" where
  "pf_empty pf = (prows pf = [] \<or> pcolumns pf = [])"

text \<open>A \<^verbatim>\<open>pandas.Series\<close> labelled by tickers: one row of the \<^verbatim>\<open>Close\<close> columns.\<close>

type_synonym series = "(string \<times> fnum) list"

text \<open>\<^verbatim>\<open>indices_data[field]\<close>: the columns of one field, row by row.\<close>

definition pf_field :: "price_frame \<Rightarrow> string \<Rightarrow> exn + series list" where
  "pf_field pf field =
     (if field \<in> set (map fst (pcolumns pf))
      then Inr (map (\<lambda>r. map (\<lambda>(c, v). (snd c, v))
                            (filter (\<lambda>(c, v). fst c = field) (zip (pcolumns pf) r)))
                  (prows pf))
      else Inl (KeyError field))"

text \<open>\<^verbatim>\<open>.iloc[-k]\<close> for \<open>k > 0\<close>: the \<open>k\<close>-th row from the end.\<close>

definition iloc_neg :: "'a list \<Rightarrow> nat \<Rightarrow> exn + 'a" where
  "iloc_neg rs k =
     (if 0 < k \<and> k \<le> length rs then Inr (rs ! (length rs - k)) else Inl IndexError)"

text \<open>
  Float arithmetic as numpy has it: a division by zero is an infinity or a NaN and
  raises nothing, and a NaN operand gives a NaN.
\<close>

fun fsub :: "fnum \<Rightarrow> fnum \<Rightarrow> fnum" where
  "fsub (Fin a) (Fin b) = Fin (a - b)"
| "fsub NaN y = NaN"
| "fsub x NaN = NaN"
| "fsub PInf PInf = NaN"
| "fsub NInf NInf = NaN"
| "fsub PInf y = PInf"
| "fsub NInf y = NInf"
| "fsub (Fin a) PInf = NInf"
| "fsub (Fin a) NInf = PInf"

fun fdiv :: "fnum \<Rightarrow> fnum \<Rightarrow> fnum" where
  "fdiv (Fin a) (Fin b) =
     (if b = 0 then (if a = 0 then NaN else if 0 < a then PInf else NInf)
      else Fin (a / b))"
| "fdiv NaN y = NaN"
| "fdiv x NaN = NaN"
| "fdiv (Fin a) y = Fin 0"
| "fdiv PInf (Fin b) = (if 0 \<le> b then PInf else NInf)"
| "fdiv NInf (Fin b) = (if 0 \<le> b then NInf else PInf)"
| "fdiv x y = NaN"

fun fmul :: "fnum \<Rightarrow> fnum \<Rightarrow> fnum" where
  "fmul (Fin a) (Fin b) = Fin (a * b)"
| "fmul NaN y = NaN"
| "fmul x NaN = NaN"
| "fmul (Fin a) PInf = (if a = 0 then NaN else if 0 < a then PInf else NInf)"
| "fmul (Fin a) NInf = (if a = 0 then NaN else if 0 < a then NInf else PInf)"
| "fmul PInf (Fin b) = (if b = 0 then NaN else if 0 < b then PInf else NInf)"
| "fmul NInf (Fin b) = (if b = 0 then NaN else if 0 < b then NInf else PInf)"
| "fmul PInf PInf = PInf"
| "fmul NInf NInf = PInf"
| "fmul x y = NInf"

text \<open>
  Arithmetic of two series goes label by label: a label of the left series that the
  right one lacks gives a NaN.
\<close>

definition series_sub :: "series \<Rightarrow> series \<Rightarrow> series" where
  "series_sub a b =
     map (\<lambda>(k, x). (k, case map_of b k of None \<Rightarrow> NaN | Some y \<Rightarrow> fsub x y)) a"

definition series_div :: "series \<Rightarrow> series \<Rightarrow> series" where
  "series_div a b =
     map (\<lambda>(k, x). (k, case map_of b k of None \<Rightarrow> NaN | Some y \<Rightarrow> fdiv x y)) a"

definition series_mul :: "series \<Rightarrow> fnum \<Rightarrow> series" where
  "series_mul a c = map (\<lambda>(k, x). (k, fmul x c)) a"

definition series_get :: "series \<Rightarrow> string \<Rightarrow> exn + fnum" where
  "series_get a k = (case map_of a k of None \<Rightarrow> Inl (KeyError k) | Some v \<Rightarrow> Inr v)"

definition indices :: "string list" where
  "indices = [''^NSEI'', ''^CNX200'', ''^BSESN'', ''^CNX500'']"

definition indices_names :: "string list" where
  "indices_names = [''NIFTY 50'', ''NIFTY 200'', ''SENSEX'', ''NIFTY 500'']"

text \<open>
  The loop of lines 112 to 118 over the indices still to visit, each with its name
  \<^verbatim>\<open>indices_names[i]\<close>.
\<close>

fun index_rows :: "(string \<times> string) list \<Rightarrow> series \<Rightarrow> series \<Rightarrow> series \<Rightarrow> exn + snapshot list" where
  "index_rows [] latest_prices changes percent_changes = Inr []"
| "index_rows ((index, name) # rest) latest_prices changes percent_changes =
     (case series_get latest_prices index of
        Inl e \<Rightarrow> Inl e
      | Inr p \<Rightarrow>
     (case series_get changes index of
        Inl e \<Rightarrow> Inl e
      | Inr c \<Rightarrow>
     (case series_get percent_changes index of
        Inl e \<Rightarrow> Inl e
      | Inr pc \<Rightarrow>
     (case index_rows rest latest_prices changes percent_changes of
        Inl e \<Rightarrow> Inl e
      | Inr index_data \<Rightarrow>
          Inr (\<lparr>Index = name, Last_Traded_Price = p, Change = c, Change_pct = pc\<rparr>
               # index_data)))))"

text \<open>Lines 107 to 118: the rows of the index table, computed from the download.\<close>

definition index_snapshots :: "price_frame \<Rightarrow> exn + snapshot list" where
  "index_snapshots indices_data =
     (case pf_field indices_data ''Close'' of
        Inl e \<Rightarrow> Inl e
      | Inr close \<Rightarrow>
     (case iloc_neg close 1 of
        Inl e \<Rightarrow> Inl e
      | Inr latest_prices \<Rightarrow>
     (case iloc_neg close 2 of
        Inl e \<Rightarrow> Inl e
      | Inr previous_closes \<Rightarrow>
          (let changes = series_sub latest_prices previous_closes;
               percent_changes = series_mul (series_div changes previous_closes) (Fin 100)
           in index_rows (zip indices indices_names)
                latest_prices changes percent_changes))))"

text \<open>
  The body of the \<^verbatim>\<open>try\<close> of lines 104 to 127, given the world's answer to
  \<^verbatim>\<open>yf.download\<close>: the exception it ends with, if any.
\<close>

definition indices_body :: "(exn + price_frame) \<Rightarrow> world \<Rightarrow> exn option \<times> world" where
  "indices_body answer s =
     (case answer of
        Inl e \<Rightarrow> (Some e, s)
      | Inr indices_data \<Rightarrow>
          (if \<not> pf_empty indices_data then
             (let s1 = st_subheader ''Key Indian Indices'' s in
              case index_snapshots indices_data of
                Inl e \<Rightarrow> (Some e, s1)
              | Inr index_data \<Rightarrow> (None, st_dataframe_indices index_data s1))
           else (None, st_warning ''Could not retrieve index data.'' s)))"

text \<open>\<^verbatim>\<open>except Exception\<close> catches every exception of the model.\<close>

definition display_indices :: "(exn + price_frame) \<Rightarrow> world \<Rightarrow> world" where
  "display_indices answer s =
     (case indices_body answer s of
        (None, s1) \<Rightarrow> s1
      | (Some e, s1) \<Rightarrow> st_error [Lit ''Error fetching index data: '', Fmt_exn e] s1)"

section \<open>Sample worlds\<close>

definition world0 :: world where
  "world0 = \<lparr>requests = 0, slept = 0, ui = []\<rparr>"

text \<open>The listing page with a table of two constituents.\<close>

definition nifty_page :: response where
  "nifty_page =
     \<lparr>status_code = 200, json_body = Inl JSONDecodeError,
      html_tables =
        Inr [\<lparr>index_len = 2,
              columns_data =
                [(''Company Name'', [''Tata Consultancy Services Ltd.'', ''Infosys Ltd.'']),
                 (''Symbol'', [''TCS'', ''INFY''])]\<rparr>]\<rparr>"

text \<open>The site is down: every request ends in a connection error.\<close>

definition env_down :: "nat \<Rightarrow> exn + response" where
  "env_down attempt = Inl ConnectionError"

text \<open>Two timeouts, then the listing page.\<close>

definition env_third_time :: "nat \<Rightarrow> exn + response" where
  "env_third_time attempt = (if attempt < 2 then Inl Timeout else Inr nifty_page)"

text \<open>
  The two feeds: \<open>feeds g l\<close> answers the request of the gainers URL with \<open>g\<close> and
  that of the losers URL with \<open>l\<close>.
\<close>

definition feed_response :: "nat \<Rightarrow> json \<Rightarrow> response" where
  "feed_response code body =
     \<lparr>status_code = code, json_body = Inr body, html_tables = Inl ValueError\<rparr>"

definition feeds :: "(exn + response) \<Rightarrow> (exn + response) \<Rightarrow> string \<Rightarrow> exn + response" where
  "feeds gainers losers url =
     (if url = gainer_url then gainers else if url = loser_url then losers
      else Inl ConnectionError)"

text \<open>
  The entry \<^verbatim>\<open>{"symbol":"TCS","ltp":3500.5,"change":25.5,"pChange":0.73}\<close>, and the
  world whose gainers feed is \<^verbatim>\<open>{"data":[...]}\<close> with this entry and whose losers
  feed is \<^verbatim>\<open>{"data":[]}\<close>.
\<close>

definition tcs_record :: json where
  "tcs_record =
     JObj [(''symbol'', JStr ''TCS''), (''ltp'', JNum (7001 / 2)),
           (''change'', JNum (51 / 2)), (''pChange'', JNum (73 / 100))]"

definition env_tcs_none :: "string \<Rightarrow> exn + response" where
  "env_tcs_none =
     feeds (Inr (feed_response 200 (JObj [(''data'', JArr [tcs_record])])))
           (Inr (feed_response 200 (JObj [(''data'', JArr [])])))"

definition infy_record :: json where
  "infy_record =
     JObj [(''symbol'', JStr ''INFY''), (''ltp'', JNum 1480), (''change'', JNum (- 30)),
           (''pChange'', JNum (- 199 / 100))]"

text \<open>The gainers feed answers 503, and 300 with a body, while the losers feed is well.\<close>

definition env_gainers_503 :: "string \<Rightarrow> exn + response" where
  "env_gainers_503 =
     feeds (Inr (feed_response 503 JNull))
           (Inr (feed_response 200 (JObj [(''data'', JArr [infy_record])])))"

definition env_gainers_300 :: "string \<Rightarrow> exn + response" where
  "env_gainers_300 =
     feeds (Inr (feed_response 300 (JObj [(''data'', JArr [tcs_record])])))
           (Inr (feed_response 200 (JObj [(''data'', JArr [infy_record])])))"

text \<open>Entries with a field more than the four that are displayed.\<close>

definition tcs_entry :: json where
  "tcs_entry =
     JObj [(''symbol'', JStr ''TCS''), (''series'', JStr ''EQ''), (''ltp'', JNum (7001 / 2)),
           (''change'', JNum (51 / 2)), (''pChange'', JNum (73 / 100))]"

definition infy_entry :: json where
  "infy_entry =
     JObj [(''symbol'', JStr ''INFY''), (''series'', JStr ''EQ''), (''ltp'', JNum 1480),
           (''change'', JNum (- 30)), (''pChange'', JNum (- 199 / 100))]"

definition tcs_entry_frame :: "json option DataFrame" where
  "tcs_entry_frame =
     \<lparr>index_len = 1,
      columns_data =
        [(''symbol'', [Some (JStr ''TCS'')]), (''series'', [Some (JStr ''EQ'')]),
         (''ltp'', [Some (JNum (7001 / 2))]), (''change'', [Some (JNum (51 / 2))]),
         (''pChange'', [Some (JNum (73 / 100))])]\<rparr>"

definition infy_entry_frame :: "json option DataFrame" where
  "infy_entry_frame =
     \<lparr>index_len = 1,
      columns_data =
        [(''symbol'', [Some (JStr ''INFY'')]), (''series'', [Some (JStr ''EQ'')]),
         (''ltp'', [Some (JNum 1480)]), (''change'', [Some (JNum (- 30))]),
         (''pChange'', [Some (JNum (- 199 / 100))])]\<rparr>"

definition env_entries :: "string \<Rightarrow> exn + response" where
  "env_entries =
     feeds (Inr (feed_response 200 (JObj [(''data'', JArr [tcs_entry])])))
           (Inr (feed_response 200 (JObj [(''data'', JArr [infy_entry])])))"

text \<open>
  Downloads of the four indices: two trading days; two days of which the first has no
  close of \<^verbatim>\<open>^CNX200\<close>; one day only; and two days without any column of
  \<^verbatim>\<open>^CNX200\<close>. In the first, the closes of \<^verbatim>\<open>^NSEI\<close> are 100.0 and 102.0.
\<close>

definition close_columns :: "(string \<times> string) list" where
  "close_columns = [(''Close'', ''^BSESN''), (''Close'', ''^CNX200''), (''Close'', ''^CNX500''),
                    (''Close'', ''^NSEI''), (''Volume'', ''^NSEI'')]"

definition two_days :: price_frame where
  "two_days =
     \<lparr>pcolumns = close_columns,
      prows = [[Fin 80000, Fin 13000, Fin 22000, Fin 100, Fin 0],
               [Fin 80400, Fin 13130, Fin 21780, Fin 102, Fin 0]]\<rparr>"

definition gap_day :: price_frame where
  "gap_day =
     \<lparr>pcolumns = close_columns,
      prows = [[Fin 80000, NaN, Fin 22000, Fin 100, Fin 0],
               [Fin 80400, Fin 13130, Fin 21780, Fin 102, Fin 0]]\<rparr>"

definition one_day :: price_frame where
  "one_day =
     \<lparr>pcolumns = close_columns,
      prows = [[Fin 80400, Fin 13130, Fin 21780, Fin 102, Fin 0]]\<rparr>"

definition without_cnx200 :: price_frame where
  "without_cnx200 =
     \<lparr>pcolumns = [(''Close'', ''^BSESN''), (''Close'', ''^CNX500''), (''Close'', ''^NSEI'')],
      prows = [[Fin 80000, Fin 22000, Fin 100],
               [Fin 80400, Fin 21780, Fin 102]]\<rparr>"


section \<open>Predicates of the properties\<close>

text \<open>
  The feed's \<^verbatim>\<open>data\<close> field is missing or an empty list: what
  \<^verbatim>\<open>.get('data', [])\<close> gives is \<^verbatim>\<open>[]\<close>.
\<close>

definition data_missing_or_empty :: "(exn + response) \<Rightarrow> bool" where
  "data_missing_or_empty answer =
     (case answer of
        Inl e \<Rightarrow> False
      | Inr r \<Rightarrow>
          (case json_body r of
             Inr (JObj kvs) \<Rightarrow> dict_get kvs ''data'' (JArr []) = JArr []
           | other \<Rightarrow> False))"

text \<open>The constructor makes an empty frame of the empty list, when it makes one.\<close>

definition empty_of_nothing :: "(json \<Rightarrow> exn + 'c DataFrame) \<Rightarrow> bool" where
  "empty_of_nothing DF = (case DF (JArr []) of Inl e \<Rightarrow> True | Inr f \<Rightarrow> df_empty f)"

text \<open>
  A request fails: \<^verbatim>\<open>requests.get\<close> raises a \<open>RequestException\<close>, or the
  response has a status that \<^verbatim>\<open>raise_for_status\<close> raises for. A request as the
  library answers it: a response, or a \<open>RequestException\<close>.
\<close>

definition request_fails :: "(exn + response) \<Rightarrow> bool" where
  "request_fails answer =
     (case answer of
        Inl e \<Rightarrow> isinstance_RequestException e
      | Inr r \<Rightarrow> 400 \<le> status_code r \<and> status_code r < 600)"

definition response_or_transport_failure :: "(exn + response) \<Rightarrow> bool" where
  "response_or_transport_failure answer =
     (case answer of Inl e \<Rightarrow> isinstance_RequestException e | Inr r \<Rightarrow> True)"

text \<open>
  The row that lines 107 to 118 compute for one index and its name, from the last
  row of the closes and the row before it.
\<close>

definition snapshot_at :: "series \<Rightarrow> series \<Rightarrow> string \<times> string \<Rightarrow> snapshot" where
  "snapshot_at latest previous basket_member =
     (let p = (case map_of latest (fst basket_member) of None \<Rightarrow> NaN | Some x \<Rightarrow> x);
          c = (case map_of previous (fst basket_member) of None \<Rightarrow> NaN | Some y \<Rightarrow> fsub p y);
          q = (case map_of previous (fst basket_member) of None \<Rightarrow> NaN | Some y \<Rightarrow> fdiv c y)
      in \<lparr>Index = snd basket_member, Last_Traded_Price = p, Change = c,
          Change_pct = fmul q (Fin 100)\<rparr>)"

section \<open>The module's unbound names\<close>

lemma time_unbound: "global_bound ''time'' = False"
  by (simp add: global_bound_def module_globals_def)

lemma json_unbound: "global_bound ''json'' = False"
  by (simp add: global_bound_def module_globals_def)

section \<open>The ticker list retriever\<close>

text \<open>
  Claim C1 (the retriever never raises: a transport failure ends in a normal return of
  a possibly empty list). With the site down, the first request fails, the handler
  reports it and reaches \<^verbatim>\<open>time.sleep(5)\<close>; the module never imports \<^verbatim>\<open>time\<close>,
  so the call raises \<open>NameError\<close> out of the handler and out of the function, after
  one request.
\<close>

theorem get_nifty_200_tickers_site_down_raises:
  "get_nifty_200_tickers env_down world0 =
     (Inl (NameError ''time''),
      \<lparr>requests = 1, slept = 0,
       ui = [St_error [Lit ''Error fetching NIFTY 200 data: '', Fmt_exn ConnectionError,
                       Lit ''. Attempt '', Fmt_nat 1]]\<rparr>)"
  by (simp add: get_nifty_200_tickers_def attempt_body_def requests_get_def env_down_def
      world0_def st_error_def time_sleep_def time_unbound)

text \<open>
  Claim C5 (two transport failures, then a success: the result is the symbol list of the
  third response). The run ends at the first failure with \<open>NameError\<close>, for the same
  missing import; the second and third requests are never issued and the list
  \<open>[TCS, INFY]\<close> of the third response is never read.
\<close>

theorem get_nifty_200_tickers_no_retry:
  "get_nifty_200_tickers env_third_time world0 =
     (Inl (NameError ''time''),
      \<lparr>requests = 1, slept = 0,
       ui = [St_error [Lit ''Error fetching NIFTY 200 data: '', Fmt_exn Timeout,
                       Lit ''. Attempt '', Fmt_nat 1]]\<rparr>)"
  by (simp add: get_nifty_200_tickers_def attempt_body_def requests_get_def env_third_time_def
      world0_def st_error_def time_sleep_def time_unbound)

text \<open>
  Claim C6 (when all attempts fail, the empty list is returned after exactly 3
  attempts, and no 4th request is issued). With the site down, the run does not
  return the empty list and does not make 3 attempts: the handler of the first
  failure raises \<open>NameError\<close> at \<^verbatim>\<open>time.sleep(5)\<close>, for the missing import of
  \<^verbatim>\<open>time\<close>, after 1 request.
\<close>

theorem get_nifty_200_tickers_site_down_one_attempt:
  "fst (get_nifty_200_tickers env_down world0) = Inl (NameError ''time'') \<and>
   fst (get_nifty_200_tickers env_down world0) \<noteq> Inr [] \<and>
   requests (snd (get_nifty_200_tickers env_down world0)) = 1 \<and>
   requests (snd (get_nifty_200_tickers env_down world0)) \<noteq> 3"
  by (simp add: get_nifty_200_tickers_def attempt_body_def requests_get_def env_down_def
      world0_def st_error_def time_sleep_def time_unbound)

section \<open>The movers retriever\<close>

lemma urls_differ: "loser_url \<noteq> gainer_url"
  by (simp add: loser_url_def gainer_url_def)

lemma feeds_simps:
  "feeds g l gainer_url = g" "feeds g l loser_url = l"
  by (simp_all add: feeds_def urls_differ)

lemma tcs_frame: "DataFrame_records (JArr [tcs_record]) =
   Inr \<lparr>index_len = 1,
        columns_data = [(''symbol'', [Some (JStr ''TCS'')]), (''ltp'', [Some (JNum (7001 / 2))]),
                        (''change'', [Some (JNum (51 / 2))]), (''pChange'', [Some (JNum (73 / 100))])]\<rparr>"
  by (simp add: DataFrame_records_def tcs_record_def records_frame_def dict_keys_def dict_lookup_def)

lemma empty_list_frame: "DataFrame_records (JArr []) = Inr DataFrame0"
  by (simp add: DataFrame_records_def records_frame_def DataFrame0_def)

lemma infy_frame: "DataFrame_records (JArr [infy_record]) =
   Inr \<lparr>index_len = 1,
        columns_data = [(''symbol'', [Some (JStr ''INFY'')]), (''ltp'', [Some (JNum 1480)]),
                        (''change'', [Some (JNum (- 30))]), (''pChange'', [Some (JNum (- 199 / 100))])]\<rparr>"
  by (simp add: DataFrame_records_def infy_record_def records_frame_def dict_keys_def dict_lookup_def)

lemma tcs_entry_frame: "DataFrame_records (JArr [tcs_entry]) = Inr tcs_entry_frame"
  by (simp add: DataFrame_records_def tcs_entry_def records_frame_def dict_keys_def
      dict_lookup_def tcs_entry_frame_def)

lemma infy_entry_frame: "DataFrame_records (JArr [infy_entry]) = Inr infy_entry_frame"
  by (simp add: DataFrame_records_def infy_entry_def records_frame_def dict_keys_def
      dict_lookup_def infy_entry_frame_def)

lemma entries_run:
  "get_top_gainers_losers DataFrame_records env_entries world0 =
     (Inr (tcs_entry_frame, infy_entry_frame), \<lparr>requests = 2, slept = 0, ui = []\<rparr>)"
proof -
  have ne: "\<not> df_empty tcs_entry_frame" "\<not> df_empty infy_entry_frame"
    "df_len tcs_entry_frame \<noteq> 0" "df_len infy_entry_frame \<noteq> 0"
    by (simp_all add: df_empty_def df_len_def tcs_entry_frame_def infy_entry_frame_def)
  show ?thesis
    by (simp add: get_top_gainers_losers_def movers_body_def requests_get_def env_entries_def
      feeds_simps feed_response_def raise_for_status_def json_get_data_def dict_get_def
      dict_lookup_def tcs_entry_frame infy_entry_frame ne world0_def)
qed

lemma tcs_none_run: "get_top_gainers_losers DataFrame_records env_tcs_none world0 =
   (Inr (DataFrame0, DataFrame0),
    \<lparr>requests = 2, slept = 0, ui = [St_warning ''No top losers data available.'']\<rparr>)"
  by (simp add: get_top_gainers_losers_def movers_body_def requests_get_def env_tcs_none_def
      feeds_simps feed_response_def raise_for_status_def json_get_data_def dict_get_def
      dict_lookup_def tcs_frame empty_list_frame df_empty_def df_len_def DataFrame0_def
      st_warning_def world0_def)

lemma movers_body_shape:
  "movers_body DF env s = (Inr (g, l), s1) \<Longrightarrow>
     (g = DataFrame0 \<and> l = DataFrame0) \<or> (\<not> df_empty g \<and> \<not> df_empty l)"
  by (auto simp: movers_body_def requests_get_def
      split: sum.splits option.splits if_splits)

lemma pair_shape:
  assumes "fst (get_top_gainers_losers DF env s) = Inr (g, l)"
  shows "(g = DataFrame0 \<and> l = DataFrame0) \<or> (\<not> df_empty g \<and> \<not> df_empty l)"
proof -
  obtain r s1 where b: "movers_body DF env s = (r, s1)"
    by (cases "movers_body DF env s")
  show ?thesis
  proof (cases r)
    case (Inr v)
    with assms b have "movers_body DF env s = (Inr (g, l), s1)"
      by (simp add: get_top_gainers_losers_def)
    then show ?thesis by (rule movers_body_shape)
  next
    case (Inl e)
    with assms b show ?thesis
      by (simp add: get_top_gainers_losers_def json_unbound split: if_splits)
  qed
qed

lemma movers_body_nothing:
  "movers_body DF env s = (Inr (g, l), s1) \<Longrightarrow> empty_of_nothing DF \<Longrightarrow>
   data_missing_or_empty (env gainer_url) \<or> data_missing_or_empty (env loser_url) \<Longrightarrow>
   g = DataFrame0 \<and> l = DataFrame0"
  by (auto simp: movers_body_def requests_get_def data_missing_or_empty_def json_get_data_def
      empty_of_nothing_def
      split: sum.splits option.splits if_splits json.splits)

lemma returned_by_body_or_handler:
  assumes "fst (get_top_gainers_losers DF env s) = Inr (g, l)"
  shows "(\<exists>s1. movers_body DF env s = (Inr (g, l), s1)) \<or> (g = DataFrame0 \<and> l = DataFrame0)"
proof -
  obtain r s1 where b: "movers_body DF env s = (r, s1)"
    by (cases "movers_body DF env s")
  show ?thesis
  proof (cases r)
    case (Inr v)
    with assms b show ?thesis by (simp add: get_top_gainers_losers_def)
  next
    case (Inl e)
    with assms b show ?thesis
      by (simp add: get_top_gainers_losers_def json_unbound split: if_splits)
  qed
qed

text \<open>
  Claim C2 as stated (one gainer entry and an empty losers list, both requests
  succeeding: one record of gainers is returned with an empty losers sequence) fails:
  the guard of lines 86 to 88 answers the empty losers frame with two empty frames,
  so the gainers frame returned has no row.
\<close>

theorem one_gainer_no_losers_returns_two_empty:
  "fst (get_top_gainers_losers DataFrame_records env_tcs_none world0) =
     Inr (DataFrame0, DataFrame0) \<and>
   df_len (DataFrame0 :: json option DataFrame) = 0 \<and>
   df_len (DataFrame0 :: json option DataFrame) \<noteq> 1"
  by (simp add: tcs_none_run df_len_def DataFrame0_def)

text \<open>
  Claim C2, amended: for any run in which the gainers feed returns the JSON
  \<^verbatim>\<open>{"data":[{"symbol":"TCS","ltp":3500.5,"change":25.5,"pChange":0.73}]}\<close> and
  the losers feed returns \<^verbatim>\<open>{"data":[]}\<close>, both requests succeeding, the operation
  returns two empty sequences, after the warning that no top losers data is available.
\<close>

theorem empty_losers_feed_empties_both:
  assumes "env gainer_url = Inr rg" and "env loser_url = Inr rl"
    and "raise_for_status rg = None" and "raise_for_status rl = None"
    and "json_body rg = Inr (JObj [(''data'', JArr [tcs_record])])"
    and "json_body rl = Inr (JObj [(''data'', JArr [])])"
  shows "get_top_gainers_losers DataFrame_records env s =
           (Inr (DataFrame0, DataFrame0),
            st_warning ''No top losers data available.'' (s\<lparr>requests := requests s + 2\<rparr>))"
  using assms
  by (simp add: get_top_gainers_losers_def movers_body_def requests_get_def
      json_get_data_def dict_get_def dict_lookup_def tcs_frame empty_list_frame
      df_empty_def df_len_def DataFrame0_def)

theorem empty_losers_feed_empties_both_witness:
  "get_top_gainers_losers DataFrame_records env_tcs_none world0 =
     (Inr (DataFrame0, DataFrame0),
      \<lparr>requests = 2, slept = 0, ui = [St_warning ''No top losers data available.'']\<rparr>)"
  using empty_losers_feed_empties_both
    [of env_tcs_none "feed_response 200 (JObj [(''data'', JArr [tcs_record])])"
        "feed_response 200 (JObj [(''data'', JArr [])])" world0]
  by (simp add: env_tcs_none_def feeds_simps feed_response_def raise_for_status_def
      st_warning_def world0_def)

text \<open>
  Claim C7 as stated (a gainers request that fails with a transport failure or a
  non-2xx status gives two empty sequences) fails for a status that is not 2xx and
  that \<^verbatim>\<open>raise_for_status\<close> does not raise for: a gainers response 300 with a body
  is read like a 200, and both frames come back populated.
\<close>

theorem gainers_status_300_returns_populated:
  "status_code (feed_response 300 (JObj [(''data'', JArr [tcs_record])])) \<notin> {200..<300} \<and>
   fst (get_top_gainers_losers DataFrame_records env_gainers_300 world0) =
     Inr (\<lparr>index_len = 1,
           columns_data = [(''symbol'', [Some (JStr ''TCS'')]), (''ltp'', [Some (JNum (7001 / 2))]),
                           (''change'', [Some (JNum (51 / 2))]), (''pChange'', [Some (JNum (73 / 100))])]\<rparr>,
          \<lparr>index_len = 1,
           columns_data = [(''symbol'', [Some (JStr ''INFY'')]), (''ltp'', [Some (JNum 1480)]),
                        (''change'', [Some (JNum (- 30))]), (''pChange'', [Some (JNum (- 199 / 100))])]\<rparr>)"
  by (simp add: get_top_gainers_losers_def movers_body_def requests_get_def env_gainers_300_def
      feeds_simps feed_response_def raise_for_status_def json_get_data_def dict_get_def
      dict_lookup_def tcs_frame infy_frame df_empty_def df_len_def world0_def)

text \<open>
  Claim C7, amended: for every run in which the gainers request fails with a transport
  failure (a \<open>RequestException\<close>) or with a status from 400 to 599, the operation
  returns two empty sequences, whatever the losers request gives (a response, good
  or bad, or a transport failure).
\<close>

theorem gainers_failure_empties_both:
  assumes "request_fails (env gainer_url)"
    and "response_or_transport_failure (env loser_url)"
  shows "fst (get_top_gainers_losers DF env s) = Inr (DataFrame0, DataFrame0)"
  using assms
  by (auto simp: get_top_gainers_losers_def movers_body_def requests_get_def
      request_fails_def response_or_transport_failure_def raise_for_status_def
      split: sum.splits)

theorem gainers_failure_empties_both_witness:
  "request_fails (env_gainers_503 gainer_url) \<and>
   response_or_transport_failure (env_gainers_503 loser_url) \<and>
   fst (get_top_gainers_losers DataFrame_records env_gainers_503 world0) = Inr (DataFrame0, DataFrame0)"
  using gainers_failure_empties_both [of env_gainers_503 DataFrame_records world0]
  by (simp add: env_gainers_503_def feeds_simps request_fails_def
      response_or_transport_failure_def feed_response_def)

text \<open>
  Claim C10: a run that returns normally returns two empty frames or two frames that
  are not empty; and when either feed's \<^verbatim>\<open>data\<close> field is missing or empty (the
  constructor making an empty frame of the empty list), both returned frames are the
  empty frame.
\<close>

theorem movers_pair_both_or_neither:
  assumes "fst (get_top_gainers_losers DF env s) = Inr (g, l)"
  shows "((df_empty g \<and> df_empty l) \<or> (\<not> df_empty g \<and> \<not> df_empty l)) \<and>
         (empty_of_nothing DF \<longrightarrow>
          data_missing_or_empty (env gainer_url) \<or> data_missing_or_empty (env loser_url) \<longrightarrow>
          g = DataFrame0 \<and> l = DataFrame0)"
proof -
  have e0: "df_empty (DataFrame0 :: 'a DataFrame)"
    by (simp add: df_empty_def DataFrame0_def)
  from returned_by_body_or_handler [OF assms]
  show ?thesis
  proof
    assume "\<exists>s1. movers_body DF env s = (Inr (g, l), s1)"
    then obtain s1 where b: "movers_body DF env s = (Inr (g, l), s1)" ..
    from movers_body_shape [OF b] movers_body_nothing [OF b] e0 show ?thesis by auto
  next
    assume "g = DataFrame0 \<and> l = DataFrame0"
    with e0 show ?thesis by simp
  qed
qed

theorem movers_pair_both_or_neither_witness:
  "fst (get_top_gainers_losers DataFrame_records env_tcs_none world0) = Inr (DataFrame0, DataFrame0) \<and>
   empty_of_nothing DataFrame_records \<and>
   data_missing_or_empty (env_tcs_none loser_url) \<and>
   df_empty (DataFrame0 :: json option DataFrame)"
proof -
  have run: "fst (get_top_gainers_losers DataFrame_records env_tcs_none world0) = Inr (DataFrame0, DataFrame0)"
    by (simp add: tcs_none_run)
  have eon: "empty_of_nothing DataFrame_records"
    by (simp add: empty_of_nothing_def empty_list_frame df_empty_def DataFrame0_def)
  have missing: "data_missing_or_empty (env_tcs_none loser_url)"
    by (simp add: data_missing_or_empty_def env_tcs_none_def feeds_simps feed_response_def
        dict_get_def dict_lookup_def)
  have e0: "df_empty (DataFrame0 :: json option DataFrame)"
    by (simp add: df_empty_def DataFrame0_def)
  from movers_pair_both_or_neither [OF run] show ?thesis
    by (simp add: run eon missing e0)
qed

section \<open>The display of the movers\<close>

lemma show_movers_selected:
  assumes "\<not> df_empty df"
    and "map_of (columns_data df) ''symbol'' = Some c1"
    and "map_of (columns_data df) ''ltp'' = Some c2"
    and "map_of (columns_data df) ''change'' = Some c3"
    and "map_of (columns_data df) ''pChange'' = Some c4"
  shows "show_movers heading df s =
     (Inr (),
      s\<lparr>ui := ui s @
         [St_subheader heading,
          St_dataframe \<lparr>index_len = index_len df,
                        columns_data = [(''Symbol'', c1), (''Last Traded Price'', c2),
                                        (''Change'', c3), (''Change %'', c4)]\<rparr>]\<rparr>)"
  using assms
  by (simp add: show_movers_def df_select_def df_set_columns_def st_subheader_def
      st_dataframe_def)

text \<open>
  Claim C8 as stated (every element returned by \<^verbatim>\<open>get_top_gainers_losers\<close> has
  exactly the four fields, any other field of the feed being dropped from its output)
  fails: the frames are returned as the constructor built them, with every field of
  the entries; here with the column \<^verbatim>\<open>series\<close>.
\<close>

theorem returned_frames_keep_every_field:
  "fst (get_top_gainers_losers DataFrame_records env_entries world0) =
     Inr (tcs_entry_frame, infy_entry_frame) \<and>
   df_columns tcs_entry_frame = [''symbol'', ''series'', ''ltp'', ''change'', ''pChange''] \<and>
   df_columns infy_entry_frame = [''symbol'', ''series'', ''ltp'', ''change'', ''pChange'']"
  by (simp add: entries_run df_columns_def tcs_entry_frame_def infy_entry_frame_def)

text \<open>
  Claim C8, amended: the frames that \<^verbatim>\<open>get_top_gainers_losers\<close> returns keep
  every field; the selection is made by \<^verbatim>\<open>display_top_movers\<close>. For every
  successful run with frames that are not empty and have the columns \<^verbatim>\<open>symbol\<close>,
  \<^verbatim>\<open>ltp\<close>, \<^verbatim>\<open>change\<close> and \<^verbatim>\<open>pChange\<close>, each table displayed has exactly the
  four columns Symbol, Last Traded Price (from \<^verbatim>\<open>ltp\<close>), Change and Change %
  (from \<^verbatim>\<open>pChange\<close>), with the values of the source columns; any other column is
  dropped from what is displayed.
\<close>

theorem display_top_movers_selects_four_columns:
  assumes run: "get_top_gainers_losers DF env s = (Inr (g, l), s1)"
    and ne: "\<not> df_empty g"
    and g: "map_of (columns_data g) ''symbol'' = Some g1"
           "map_of (columns_data g) ''ltp'' = Some g2"
           "map_of (columns_data g) ''change'' = Some g3"
           "map_of (columns_data g) ''pChange'' = Some g4"
    and l: "map_of (columns_data l) ''symbol'' = Some l1"
           "map_of (columns_data l) ''ltp'' = Some l2"
           "map_of (columns_data l) ''change'' = Some l3"
           "map_of (columns_data l) ''pChange'' = Some l4"
  shows "display_top_movers DF env s =
     (Inr (),
      s1\<lparr>ui := ui s1 @
         [St_subheader ''Top 5 Gainers'',
          St_dataframe \<lparr>index_len = index_len g,
                        columns_data = [(''Symbol'', g1), (''Last Traded Price'', g2),
                                        (''Change'', g3), (''Change %'', g4)]\<rparr>,
          St_subheader ''Top 5 Losers'',
          St_dataframe \<lparr>index_len = index_len l,
                        columns_data = [(''Symbol'', l1), (''Last Traded Price'', l2),
                                        (''Change'', l3), (''Change %'', l4)]\<rparr>]\<rparr>)"
proof -
  have e0: "df_empty (DataFrame0 :: json option DataFrame)"
    by (simp add: df_empty_def DataFrame0_def)
  from run have "fst (get_top_gainers_losers DF env s) = Inr (g, l)" by simp
  from pair_shape [OF this] ne e0 have nel: "\<not> df_empty l" by auto
  show ?thesis
    by (simp add: display_top_movers_def run
        show_movers_selected [OF ne g] show_movers_selected [OF nel l])
qed

theorem display_top_movers_selects_four_columns_witness:
  "display_top_movers DataFrame_records env_entries world0 =
     (Inr (),
      \<lparr>requests = 2, slept = 0,
       ui = [St_subheader ''Top 5 Gainers'',
             St_dataframe \<lparr>index_len = 1,
                           columns_data = [(''Symbol'', [Some (JStr ''TCS'')]),
                                           (''Last Traded Price'', [Some (JNum (7001 / 2))]),
                                           (''Change'', [Some (JNum (51 / 2))]),
                                           (''Change %'', [Some (JNum (73 / 100))])]\<rparr>,
             St_subheader ''Top 5 Losers'',
             St_dataframe \<lparr>index_len = 1,
                           columns_data = [(''Symbol'', [Some (JStr ''INFY'')]),
                                           (''Last Traded Price'', [Some (JNum 1480)]),
                                           (''Change'', [Some (JNum (- 30))]),
                                           (''Change %'', [Some (JNum (- 199 / 100))])]\<rparr>]\<rparr>)"
proof -
  have ne: "\<not> df_empty tcs_entry_frame"
    by (simp add: df_empty_def tcs_entry_frame_def)
  have g: "map_of (columns_data tcs_entry_frame) ''symbol'' = Some [Some (JStr ''TCS'')]"
    "map_of (columns_data tcs_entry_frame) ''ltp'' = Some [Some (JNum (7001 / 2))]"
    "map_of (columns_data tcs_entry_frame) ''change'' = Some [Some (JNum (51 / 2))]"
    "map_of (columns_data tcs_entry_frame) ''pChange'' = Some [Some (JNum (73 / 100))]"
    by (simp_all add: tcs_entry_frame_def)
  have l: "map_of (columns_data infy_entry_frame) ''symbol'' = Some [Some (JStr ''INFY'')]"
    "map_of (columns_data infy_entry_frame) ''ltp'' = Some [Some (JNum 1480)]"
    "map_of (columns_data infy_entry_frame) ''change'' = Some [Some (JNum (- 30))]"
    "map_of (columns_data infy_entry_frame) ''pChange'' = Some [Some (JNum (- 199 / 100))]"
    by (simp_all add: infy_entry_frame_def)
  from display_top_movers_selects_four_columns [OF entries_run ne g l] show ?thesis
    by (simp add: tcs_entry_frame_def infy_entry_frame_def)
qed

section \<open>The index snapshot calculator\<close>

lemma fsub_NaN_right: "fsub x NaN = NaN"
  by (cases x) simp_all

lemma fdiv_NaN_right: "fdiv x NaN = NaN"
  by (cases x) simp_all

lemma map_of_map_key:
  "map_of (map (\<lambda>(k, x). (k, f k x)) a) k = map_option (f k) (map_of a k)"
  by (induction a) auto

lemma map_of_series_sub:
  "map_of (series_sub a b) k =
     map_option (\<lambda>x. case map_of b k of None \<Rightarrow> NaN | Some y \<Rightarrow> fsub x y) (map_of a k)"
  unfolding series_sub_def by (rule map_of_map_key)

lemma map_of_series_div:
  "map_of (series_div a b) k =
     map_option (\<lambda>x. case map_of b k of None \<Rightarrow> NaN | Some y \<Rightarrow> fdiv x y) (map_of a k)"
  unfolding series_div_def by (rule map_of_map_key)

lemma map_of_series_mul:
  "map_of (series_mul a c) k = map_option (\<lambda>x. fmul x c) (map_of a k)"
  unfolding series_mul_def by (rule map_of_map_key)

lemma index_rows_all:
  "fst ` set basket \<subseteq> fst ` set latest \<Longrightarrow>
   index_rows basket latest (series_sub latest previous)
     (series_mul (series_div (series_sub latest previous) previous) (Fin 100)) =
   Inr (map (snapshot_at latest previous) basket)"
proof (induction basket)
  case Nil
  show ?case by simp
next
  case (Cons m basket)
  obtain index name where m: "m = (index, name)" by (cases m)
  from Cons.prems m obtain p where p: "map_of latest index = Some p"
    by (cases "map_of latest index") (auto simp: map_of_eq_None_iff)
  from Cons.prems have "fst ` set basket \<subseteq> fst ` set latest" by simp
  from Cons.IH [OF this] m p show ?case
    by (simp add: series_get_def map_of_series_sub map_of_series_div map_of_series_mul
        snapshot_at_def Let_def split: option.splits)
qed

lemma index_rows_missing:
  "\<not> fst ` set basket \<subseteq> fst ` set latest \<Longrightarrow>
   \<exists>e. index_rows basket latest changes percent_changes = Inl e"
proof (induction basket)
  case Nil
  then show ?case by simp
next
  case (Cons m basket)
  obtain index name where m: "m = (index, name)" by (cases m)
  show ?case
  proof (cases "map_of latest index")
    case None
    with m show ?thesis by (simp add: series_get_def)
  next
    case (Some p)
    then have "index \<in> fst ` set latest"
      by (metis map_of_eq_None_iff option.distinct(1))
    with Cons.prems m have "\<not> fst ` set basket \<subseteq> fst ` set latest" by simp
    from Cons.IH [OF this] obtain e where
      "index_rows basket latest changes percent_changes = Inl e" ..
    with m show ?thesis by (simp split: sum.splits)
  qed
qed

lemma basket_indices: "fst ` set (zip indices indices_names) = set indices"
  by (simp add: indices_def indices_names_def)

lemma basket_names: "map snd (zip indices indices_names) = indices_names"
  by (simp add: indices_def indices_names_def)

lemma index_snapshots_two_rows:
  assumes "pf_field pf ''Close'' = Inr close" and "2 \<le> length close"
  shows "index_snapshots pf =
     index_rows (zip indices indices_names) (last close)
       (series_sub (last close) (close ! (length close - 2)))
       (series_mul (series_div (series_sub (last close) (close ! (length close - 2)))
                      (close ! (length close - 2))) (Fin 100))"
proof -
  from assms(2) have "close \<noteq> []" by auto
  then have "close ! (length close - 1) = last close" by (simp add: last_conv_nth)
  with assms show ?thesis
    by (simp add: index_snapshots_def iloc_neg_def Let_def)
qed

lemma index_snapshots_all:
  assumes "pf_field pf ''Close'' = Inr close" and "2 \<le> length close"
    and "set indices \<subseteq> fst ` set (last close)"
  shows "index_snapshots pf =
     Inr (map (snapshot_at (last close) (close ! (length close - 2))) (zip indices indices_names))"
  using index_rows_all [of "zip indices indices_names" "last close"] assms(3)
  by (simp add: index_snapshots_two_rows [OF assms(1,2)] basket_indices)

lemma index_snapshots_none:
  assumes "pf_field pf ''Close'' = Inr close"
    and "\<not> (2 \<le> length close \<and> set indices \<subseteq> fst ` set (last close))"
  shows "\<exists>e. index_snapshots pf = Inl e"
proof (cases "2 \<le> length close")
  case True
  with assms(2) have "\<not> fst ` set (zip indices indices_names) \<subseteq> fst ` set (last close)"
    by (simp add: basket_indices)
  from index_rows_missing [OF this] show ?thesis
    by (simp add: index_snapshots_two_rows [OF assms(1) True])
next
  case False
  with assms(1) show ?thesis
    by (auto simp: index_snapshots_def iloc_neg_def split: sum.splits)
qed

lemma display_indices_table:
  assumes "\<not> pf_empty pf" and "index_snapshots pf = Inr snaps"
  shows "ui (display_indices (Inr pf) s) =
           ui s @ [St_subheader ''Key Indian Indices'', St_dataframe_indices snaps]"
  using assms
  by (simp add: display_indices_def indices_body_def st_subheader_def st_dataframe_indices_def)

lemma display_indices_error:
  assumes "\<not> pf_empty pf" and "index_snapshots pf = Inl e"
  shows "ui (display_indices (Inr pf) s) =
           ui s @ [St_subheader ''Key Indian Indices'',
                   St_error [Lit ''Error fetching index data: '', Fmt_exn e]]"
  using assms
  by (simp add: display_indices_def indices_body_def st_subheader_def st_error_def)

lemma close_two_days:
  "pf_field two_days ''Close'' =
     Inr [[(''^BSESN'', Fin 80000), (''^CNX200'', Fin 13000), (''^CNX500'', Fin 22000), (''^NSEI'', Fin 100)],
          [(''^BSESN'', Fin 80400), (''^CNX200'', Fin 13130), (''^CNX500'', Fin 21780), (''^NSEI'', Fin 102)]]"
  by (simp add: pf_field_def two_days_def close_columns_def)

lemma close_gap_day:
  "pf_field gap_day ''Close'' =
     Inr [[(''^BSESN'', Fin 80000), (''^CNX200'', NaN), (''^CNX500'', Fin 22000), (''^NSEI'', Fin 100)],
          [(''^BSESN'', Fin 80400), (''^CNX200'', Fin 13130), (''^CNX500'', Fin 21780), (''^NSEI'', Fin 102)]]"
  by (simp add: pf_field_def gap_day_def close_columns_def)

lemma close_one_day:
  "pf_field one_day ''Close'' =
     Inr [[(''^BSESN'', Fin 80400), (''^CNX200'', Fin 13130), (''^CNX500'', Fin 21780), (''^NSEI'', Fin 102)]]"
  by (simp add: pf_field_def one_day_def close_columns_def)

lemma close_without_cnx200:
  "pf_field without_cnx200 ''Close'' =
     Inr [[(''^BSESN'', Fin 80000), (''^CNX500'', Fin 22000), (''^NSEI'', Fin 100)],
          [(''^BSESN'', Fin 80400), (''^CNX500'', Fin 21780), (''^NSEI'', Fin 102)]]"
  by (simp add: pf_field_def without_cnx200_def)

lemma not_empty_samples:
  "\<not> pf_empty two_days" "\<not> pf_empty gap_day" "\<not> pf_empty one_day" "\<not> pf_empty without_cnx200"
  by (simp_all add: pf_empty_def two_days_def gap_day_def one_day_def without_cnx200_def
      close_columns_def)

lemma snapshots_two_days:
  "index_snapshots two_days =
     Inr [\<lparr>Index = ''NIFTY 50'', Last_Traded_Price = Fin 102, Change = Fin 2, Change_pct = Fin 2\<rparr>,
          \<lparr>Index = ''NIFTY 200'', Last_Traded_Price = Fin 13130, Change = Fin 130, Change_pct = Fin 1\<rparr>,
          \<lparr>Index = ''SENSEX'', Last_Traded_Price = Fin 80400, Change = Fin 400, Change_pct = Fin (1 / 2)\<rparr>,
          \<lparr>Index = ''NIFTY 500'', Last_Traded_Price = Fin 21780, Change = Fin (- 220), Change_pct = Fin (- 1)\<rparr>]"
  by (simp add: index_snapshots_def close_two_days iloc_neg_def series_sub_def series_div_def
      series_mul_def series_get_def indices_def indices_names_def)

lemma snapshots_gap_day:
  "index_snapshots gap_day =
     Inr [\<lparr>Index = ''NIFTY 50'', Last_Traded_Price = Fin 102, Change = Fin 2, Change_pct = Fin 2\<rparr>,
          \<lparr>Index = ''NIFTY 200'', Last_Traded_Price = Fin 13130, Change = NaN, Change_pct = NaN\<rparr>,
          \<lparr>Index = ''SENSEX'', Last_Traded_Price = Fin 80400, Change = Fin 400, Change_pct = Fin (1 / 2)\<rparr>,
          \<lparr>Index = ''NIFTY 500'', Last_Traded_Price = Fin 21780, Change = Fin (- 220), Change_pct = Fin (- 1)\<rparr>]"
  by (simp add: index_snapshots_def close_gap_day iloc_neg_def series_sub_def series_div_def
      series_mul_def series_get_def indices_def indices_names_def)

lemma snapshots_without_cnx200:
  "index_snapshots without_cnx200 = Inl (KeyError ''^CNX200'')"
  by (simp add: index_snapshots_def close_without_cnx200 iloc_neg_def series_sub_def series_div_def
      series_mul_def series_get_def indices_def indices_names_def)

text \<open>
  Claim C3 as stated (closes 100.0 and 102.0 give change 2.0 and a percent change of
  about 1.96, the percent change being the change divided by the previous close times
  100) fails in its number: the formula, which the code follows, gives
  2.0 / 100.0 * 100 = 2.0, and 2.0 is not within 0.01 of 1.96.
\<close>

theorem closes_100_102_percent_change_is_2:
  "ui (display_indices (Inr two_days) world0) =
     [St_subheader ''Key Indian Indices'',
      St_dataframe_indices
        [\<lparr>Index = ''NIFTY 50'', Last_Traded_Price = Fin 102, Change = Fin 2, Change_pct = Fin 2\<rparr>,
         \<lparr>Index = ''NIFTY 200'', Last_Traded_Price = Fin 13130, Change = Fin 130, Change_pct = Fin 1\<rparr>,
         \<lparr>Index = ''SENSEX'', Last_Traded_Price = Fin 80400, Change = Fin 400, Change_pct = Fin (1 / 2)\<rparr>,
         \<lparr>Index = ''NIFTY 500'', Last_Traded_Price = Fin 21780, Change = Fin (- 220), Change_pct = Fin (- 1)\<rparr>]] \<and>
   \<not> \<bar>(2 :: rat) - 196 / 100\<bar> < 1 / 100"
  using display_indices_table [OF not_empty_samples(1) snapshots_two_days, of world0]
  by (simp add: world0_def)

text \<open>
  Claim C3, amended: for a download whose last two closes of a basket member X are
  100.0 and 102.0 (the frame being non-empty, with at least two rows of closes and a
  column for every basket member), the table displayed has for X the snapshot with
  last traded price 102.0, change 2.0 and percent change 2.0.
\<close>

theorem closes_100_102_snapshot:
  assumes close: "pf_field pf ''Close'' = Inr close" and ne: "\<not> pf_empty pf"
    and rows: "2 \<le> length close" and members: "set indices \<subseteq> fst ` set (last close)"
    and X: "(X, name) \<in> set (zip indices indices_names)"
    and previous: "map_of (close ! (length close - 2)) X = Some (Fin 100)"
    and latest: "map_of (last close) X = Some (Fin 102)"
  shows "\<exists>snaps. ui (display_indices (Inr pf) s) =
                   ui s @ [St_subheader ''Key Indian Indices'', St_dataframe_indices snaps] \<and>
                 \<lparr>Index = name, Last_Traded_Price = Fin 102, Change = Fin 2,
                  Change_pct = Fin 2\<rparr> \<in> set snaps"
proof -
  let ?snaps = "map (snapshot_at (last close) (close ! (length close - 2))) (zip indices indices_names)"
  have "index_snapshots pf = Inr ?snaps"
    by (rule index_snapshots_all [OF close rows members])
  from display_indices_table [OF ne this]
  have "ui (display_indices (Inr pf) s) =
          ui s @ [St_subheader ''Key Indian Indices'', St_dataframe_indices ?snaps]" .
  moreover have "snapshot_at (last close) (close ! (length close - 2)) (X, name) =
      \<lparr>Index = name, Last_Traded_Price = Fin 102, Change = Fin 2, Change_pct = Fin 2\<rparr>"
    using previous latest by (simp add: snapshot_at_def Let_def)
  with X have "\<lparr>Index = name, Last_Traded_Price = Fin 102, Change = Fin 2,
                  Change_pct = Fin 2\<rparr> \<in> set ?snaps"
    by (metis (no_types, lifting) image_eqI set_map)
  ultimately show ?thesis by blast
qed

theorem closes_100_102_snapshot_witness:
  "pf_field two_days ''Close'' =
     Inr [[(''^BSESN'', Fin 80000), (''^CNX200'', Fin 13000), (''^CNX500'', Fin 22000), (''^NSEI'', Fin 100)],
          [(''^BSESN'', Fin 80400), (''^CNX200'', Fin 13130), (''^CNX500'', Fin 21780), (''^NSEI'', Fin 102)]] \<and>
   \<not> pf_empty two_days \<and>
   (''^NSEI'', ''NIFTY 50'') \<in> set (zip indices indices_names) \<and>
   (\<exists>snaps. ui (display_indices (Inr two_days) world0) =
              [St_subheader ''Key Indian Indices'', St_dataframe_indices snaps] \<and>
            \<lparr>Index = ''NIFTY 50'', Last_Traded_Price = Fin 102, Change = Fin 2,
             Change_pct = Fin 2\<rparr> \<in> set snaps)"
proof -
  have X: "(''^NSEI'', ''NIFTY 50'') \<in> set (zip indices indices_names)"
    by (simp add: indices_def indices_names_def)
  have members:
    "set indices \<subseteq> fst ` set [(''^BSESN'', Fin 80400), (''^CNX200'', Fin 13130),
                                   (''^CNX500'', Fin 21780), (''^NSEI'', Fin 102)]"
    by (simp add: indices_def)
  from closes_100_102_snapshot [OF close_two_days not_empty_samples(1) _ _ X, of world0] members
  show ?thesis
    by (simp add: close_two_days not_empty_samples X world0_def)
qed

text \<open>
  Claim C4 as stated (a member with fewer than 2 observations, or absent from the
  download, is omitted while the other members appear, and the gap never aborts the
  batch) fails both ways: \<^verbatim>\<open>^CNX200\<close> with one observation is shown, with a NaN
  change; and a download without its column ends in the error report, with no table
  at all.
\<close>

theorem gap_member_shown_absent_member_aborts:
  "ui (display_indices (Inr gap_day) world0) =
     [St_subheader ''Key Indian Indices'',
      St_dataframe_indices
        [\<lparr>Index = ''NIFTY 50'', Last_Traded_Price = Fin 102, Change = Fin 2, Change_pct = Fin 2\<rparr>,
         \<lparr>Index = ''NIFTY 200'', Last_Traded_Price = Fin 13130, Change = NaN, Change_pct = NaN\<rparr>,
         \<lparr>Index = ''SENSEX'', Last_Traded_Price = Fin 80400, Change = Fin 400, Change_pct = Fin (1 / 2)\<rparr>,
         \<lparr>Index = ''NIFTY 500'', Last_Traded_Price = Fin 21780, Change = Fin (- 220), Change_pct = Fin (- 1)\<rparr>]] \<and>
   ui (display_indices (Inr without_cnx200) world0) =
     [St_subheader ''Key Indian Indices'',
      St_error [Lit ''Error fetching index data: '', Fmt_exn (KeyError ''^CNX200'')]]"
  using display_indices_table [OF not_empty_samples(2) snapshots_gap_day, of world0]
    display_indices_error [OF not_empty_samples(4) snapshots_without_cnx200, of world0]
  by (simp add: world0_def)

text \<open>
  Claim C4, amended: for every run with a non-empty download that has closes, when
  the closes have at least 2 rows and a column for every basket member, the table
  displayed lists all four members in basket order, each with the row computed from
  the last two rows of closes, whether or not a member has an observation in both
  rows: no member is omitted, and a member whose latest or previous observation is
  missing (NaN) has a NaN change and a NaN percent change. Otherwise (fewer than 2
  rows, or a member without a column) no table is displayed and the error is
  reported: no snapshot of any member is output.
\<close>

theorem index_table_all_members_or_none:
  assumes close: "pf_field pf ''Close'' = Inr close" and ne: "\<not> pf_empty pf"
  shows "(2 \<le> length close \<and> set indices \<subseteq> fst ` set (last close) \<longrightarrow>
            ui (display_indices (Inr pf) s) =
              ui s @ [St_subheader ''Key Indian Indices'',
                      St_dataframe_indices
                        (map (snapshot_at (last close) (close ! (length close - 2)))
                           (zip indices indices_names))] \<and>
            map Index (map (snapshot_at (last close) (close ! (length close - 2)))
                         (zip indices indices_names)) = indices_names \<and>
            (\<forall>m \<in> set (zip indices indices_names).
               map_of (last close) (fst m) = Some NaN \<or>
               map_of (close ! (length close - 2)) (fst m) = Some NaN \<longrightarrow>
               Change (snapshot_at (last close) (close ! (length close - 2)) m) = NaN \<and>
               Change_pct (snapshot_at (last close) (close ! (length close - 2)) m) = NaN)) \<and>
         (\<not> (2 \<le> length close \<and> set indices \<subseteq> fst ` set (last close)) \<longrightarrow>
            (\<exists>e. ui (display_indices (Inr pf) s) =
                   ui s @ [St_subheader ''Key Indian Indices'',
                           St_error [Lit ''Error fetching index data: '', Fmt_exn e]]))"
proof (intro conjI impI ballI)
  assume a: "2 \<le> length close \<and> set indices \<subseteq> fst ` set (last close)"
  let ?snaps = "map (snapshot_at (last close) (close ! (length close - 2))) (zip indices indices_names)"
  from a have "index_snapshots pf = Inr ?snaps"
    using index_snapshots_all [OF close] by simp
  from display_indices_table [OF ne this]
  show "ui (display_indices (Inr pf) s) =
          ui s @ [St_subheader ''Key Indian Indices'', St_dataframe_indices ?snaps]" .
next
  show "map Index (map (snapshot_at (last close) (close ! (length close - 2)))
                     (zip indices indices_names)) = indices_names"
    by (simp add: snapshot_at_def Let_def indices_def indices_names_def)
next
  fix m :: "string \<times> string"
  assume "map_of (last close) (fst m) = Some NaN \<or>
          map_of (close ! (length close - 2)) (fst m) = Some NaN"
  then show "Change (snapshot_at (last close) (close ! (length close - 2)) m) = NaN"
    by (auto simp: snapshot_at_def Let_def fsub_NaN_right fdiv_NaN_right split: option.splits)
next
  fix m :: "string \<times> string"
  assume "map_of (last close) (fst m) = Some NaN \<or>
          map_of (close ! (length close - 2)) (fst m) = Some NaN"
  then show "Change_pct (snapshot_at (last close) (close ! (length close - 2)) m) = NaN"
    by (auto simp: snapshot_at_def Let_def fsub_NaN_right fdiv_NaN_right split: option.splits)
next
  assume "\<not> (2 \<le> length close \<and> set indices \<subseteq> fst ` set (last close))"
  from index_snapshots_none [OF close this] obtain e where "index_snapshots pf = Inl e" ..
  from display_indices_error [OF ne this]
  show "\<exists>e. ui (display_indices (Inr pf) s) =
                   ui s @ [St_subheader ''Key Indian Indices'',
                           St_error [Lit ''Error fetching index data: '', Fmt_exn e]]" by blast
qed

theorem index_table_all_members_or_none_witness:
  "pf_field gap_day ''Close'' =
     Inr [[(''^BSESN'', Fin 80000), (''^CNX200'', NaN), (''^CNX500'', Fin 22000), (''^NSEI'', Fin 100)],
          [(''^BSESN'', Fin 80400), (''^CNX200'', Fin 13130), (''^CNX500'', Fin 21780), (''^NSEI'', Fin 102)]] \<and>
   \<not> pf_empty gap_day \<and>
   ui (display_indices (Inr gap_day) world0) =
     [St_subheader ''Key Indian Indices'',
      St_dataframe_indices
        (map (snapshot_at
                [(''^BSESN'', Fin 80400), (''^CNX200'', Fin 13130), (''^CNX500'', Fin 21780), (''^NSEI'', Fin 102)]
                [(''^BSESN'', Fin 80000), (''^CNX200'', NaN), (''^CNX500'', Fin 22000), (''^NSEI'', Fin 100)])
           (zip indices indices_names))] \<and>
   (''^CNX200'', ''NIFTY 200'') \<in> set (zip indices indices_names) \<and>
   Change (snapshot_at
             [(''^BSESN'', Fin 80400), (''^CNX200'', Fin 13130), (''^CNX500'', Fin 21780), (''^NSEI'', Fin 102)]
             [(''^BSESN'', Fin 80000), (''^CNX200'', NaN), (''^CNX500'', Fin 22000), (''^NSEI'', Fin 100)]
             (''^CNX200'', ''NIFTY 200'')) = NaN \<and>
   Change_pct (snapshot_at
             [(''^BSESN'', Fin 80400), (''^CNX200'', Fin 13130), (''^CNX500'', Fin 21780), (''^NSEI'', Fin 102)]
             [(''^BSESN'', Fin 80000), (''^CNX200'', NaN), (''^CNX500'', Fin 22000), (''^NSEI'', Fin 100)]
             (''^CNX200'', ''NIFTY 200'')) = NaN \<and>
   pf_field one_day ''Close'' =
     Inr [[(''^BSESN'', Fin 80400), (''^CNX200'', Fin 13130), (''^CNX500'', Fin 21780), (''^NSEI'', Fin 102)]] \<and>
   \<not> pf_empty one_day \<and>
   (\<exists>e. ui (display_indices (Inr one_day) world0) =
          [St_subheader ''Key Indian Indices'',
           St_error [Lit ''Error fetching index data: '', Fmt_exn e]])"
proof -
  have members:
    "set indices \<subseteq> fst ` set [(''^BSESN'', Fin 80400), (''^CNX200'', Fin 13130),
                                   (''^CNX500'', Fin 21780), (''^NSEI'', Fin 102)]"
    by (simp add: indices_def)
  have Y: "(''^CNX200'', ''NIFTY 200'') \<in> set (zip indices indices_names)"
    by (simp add: indices_def indices_names_def)
  from index_table_all_members_or_none [OF close_gap_day not_empty_samples(2), of world0]
    index_table_all_members_or_none [OF close_one_day not_empty_samples(3), of world0]
    members Y
  show ?thesis
    by (simp add: close_gap_day close_one_day not_empty_samples world0_def)
qed

end
